theory Spec2Isabelle
  imports Complex_Main
begin

section \<open>Numbers and dates\<close>

text \<open>
  A JavaScript \<open>number\<close> is modelled as an exact real: rounding error, \<open>Infinity\<close> and
  \<open>NaN\<close> are outside the model unless a function says otherwise.  A \<open>Date\<close> is the
  number of milliseconds since the epoch, as \<open>Date.now()\<close> and \<open>getTime()\<close> give it.
\<close>

type_synonym number = real
type_synonym date = int

text \<open>
  \<open>Date.prototype.getMonth\<close> is a platform function that depends on the time zone of
  the device.  The reward engine takes it as a parameter; \<open>getMonthUTC\<close> is the instance
  for a device in the UTC zone (days since the epoch to a civil month, 0 = January).
\<close>

definition getMonthUTC :: "date \<Rightarrow> nat" where
  "getMonthUTC t =
     (let z = t div 86400000 + 719468;
          doe = z mod 146097;
          yoe = (doe - doe div 1460 + doe div 36524 - doe div 146096) div 365;
          doy = doe - (365 * yoe + yoe div 4 - yoe div 100);
          mp = (5 * doy + 2) div 153
      in nat (if mp < 10 then mp + 2 else mp - 10))"

section \<open>The safety-reward engine (updateUserRewards)\<close>

text \<open>
  The fields of \<open>UserProfile\<close> that \<open>updateUserRewards\<close> reads or writes, and
  \<open>safetyStreak\<close> as one of the fields that the object spread carries over unchanged.
\<close>

record UserProfile =
  safetyScore :: number
  totalRewards :: number
  weeklyRewards :: number
  monthlyRewards :: number
  safetyStreak :: number
  speedViolations :: number
  lastSpeedCheck :: "date option"
  averageSpeed :: number
  totalDrivingTime :: number

record SpeedData =
  speed :: number
  duration :: number

text \<open>The reward fields of \<open>createDefaultProfile\<close>, for a profile created at \<open>now\<close>.\<close>

definition createDefaultProfile :: "date \<Rightarrow> UserProfile" where
  "createDefaultProfile now =
     \<lparr> safetyScore = 100, totalRewards = 0, weeklyRewards = 0, monthlyRewards = 0,
       safetyStreak = 0, speedViolations = 0, lastSpeedCheck = Some now,
       averageSpeed = 0, totalDrivingTime = 0 \<rparr>"

text \<open>
  The month reset: the working copies \<open>monthlyRewards\<close> and \<open>speedViolations\<close>,
  zeroed when \<open>now.getMonth()\<close> differs from the month of
  \<open>userProfile.lastSpeedCheck || new Date(0)\<close>.
\<close>

definition lastCheck :: "UserProfile \<Rightarrow> date" where
  "lastCheck userProfile = (case lastSpeedCheck userProfile of None \<Rightarrow> 0 | Some d \<Rightarrow> d)"

definition monthReset :: "(date \<Rightarrow> nat) \<Rightarrow> date \<Rightarrow> UserProfile \<Rightarrow> number \<times> number" where
  "monthReset getMonth now userProfile =
     (if getMonth now \<noteq> getMonth (lastCheck userProfile) then (0, 0)
      else (monthlyRewards userProfile, speedViolations userProfile))"

definition totalTime :: "UserProfile \<Rightarrow> SpeedData \<Rightarrow> number" where
  "totalTime userProfile speedData = totalDrivingTime userProfile + duration speedData"

definition newAverageSpeed :: "UserProfile \<Rightarrow> SpeedData \<Rightarrow> number" where
  "newAverageSpeed userProfile speedData =
     (if totalTime userProfile speedData > 0
      then (averageSpeed userProfile * totalDrivingTime userProfile
              + speed speedData * duration speedData) / totalTime userProfile speedData
      else speed speedData)"

text \<open>
  The speed bands: the values of \<open>rewardChange\<close>, \<open>safetyScoreChange\<close> and
  \<open>newSpeedViolations\<close> after the first \<open>if\<close> chain, starting from \<open>0\<close>, \<open>0\<close> and
  the working copy of the violation count.
\<close>

definition speedBand :: "SpeedData \<Rightarrow> number \<Rightarrow> number \<times> number \<times> number" where
  "speedBand speedData violations =
     (if speed speedData \<le> 65
      then (of_int \<lfloor>duration speedData / 60\<rfloor> * 8, 0.2, violations)
      else if speed speedData > 75
      then (- of_int \<lfloor>duration speedData / 60\<rfloor> * 15, - 0.8, violations + 1)
      else if speed speedData > 65
      then (- of_int \<lfloor>duration speedData / 60\<rfloor> * 3, - 0.1, violations)
      else (0, 0, violations))"

text \<open>The running/walking band, which overwrites both changes.\<close>

definition exerciseBand :: "SpeedData \<Rightarrow> number \<times> number \<Rightarrow> number \<times> number" where
  "exerciseBand speedData changes =
     (if speed speedData \<ge> 3 \<and> speed speedData \<le> 15
      then (of_int \<lfloor>duration speedData / 60\<rfloor> * 5, 0.1)
      else changes)"

text \<open>The monthly average-speed bonus or penalty.\<close>

definition monthlyBonus :: "number \<Rightarrow> number \<Rightarrow> number \<Rightarrow> number" where
  "monthlyBonus minutes average change =
     (if minutes \<ge> 30 * 60
      then (if average \<le> 65 then change + 150
            else if average > 75 then change - 300
            else change)
      else change)"

text \<open>The final values of the three locals, as \<open>updatedProfile\<close> reads them.\<close>

definition rewardChange :: "UserProfile \<Rightarrow> SpeedData \<Rightarrow> number" where
  "rewardChange userProfile speedData =
     (case speedBand speedData 0 of (r, s, v) \<Rightarrow>
        monthlyBonus (totalTime userProfile speedData) (newAverageSpeed userProfile speedData)
          (fst (exerciseBand speedData (r, s))))"

definition safetyScoreChange :: "SpeedData \<Rightarrow> number" where
  "safetyScoreChange speedData =
     (case speedBand speedData 0 of (r, s, v) \<Rightarrow> snd (exerciseBand speedData (r, s)))"

definition newSpeedViolations :: "SpeedData \<Rightarrow> number \<Rightarrow> number" where
  "newSpeedViolations speedData violations =
     (case speedBand speedData violations of (r, s, v) \<Rightarrow> v)"

definition updatedProfile ::
  "(date \<Rightarrow> nat) \<Rightarrow> date \<Rightarrow> UserProfile \<Rightarrow> SpeedData \<Rightarrow> UserProfile" where
  "updatedProfile getMonth now userProfile speedData =
     (case monthReset getMonth now userProfile of (monthly, violations) \<Rightarrow>
        userProfile
          \<lparr> totalRewards := max 0 (totalRewards userProfile + rewardChange userProfile speedData),
            weeklyRewards := weeklyRewards userProfile + max 0 (rewardChange userProfile speedData),
            monthlyRewards := monthly + max 0 (rewardChange userProfile speedData),
            safetyScore := max 0 (min 100 (safetyScore userProfile + safetyScoreChange speedData)),
            speedViolations := newSpeedViolations speedData violations,
            averageSpeed := newAverageSpeed userProfile speedData,
            totalDrivingTime := totalTime userProfile speedData,
            lastSpeedCheck := Some now \<rparr>)"

text \<open>
  The state of the auth context that the operation touches: the signed-in user, the
  in-memory profile and the console.  \<open>updateDoc\<close> is the document store; its outcome for
  this call is the parameter \<open>stored\<close> (\<open>False\<close>: the promise rejects).
\<close>

datatype error = PersistenceFailure

record AuthState =
  currentUser :: "string option"
  userProfile :: "UserProfile option"
  console :: "error list"

definition updateDoc :: "bool \<Rightarrow> UserProfile \<Rightarrow> error + unit" where
  "updateDoc stored document = (if stored then Inr () else Inl PersistenceFailure)"

text \<open>
  The body of the \<open>try\<close> block: \<open>setUserProfile\<close> runs only after \<open>updateDoc\<close> has
  resolved.
\<close>

definition tryBody ::
  "(date \<Rightarrow> nat) \<Rightarrow> date \<Rightarrow> bool \<Rightarrow> AuthState \<Rightarrow> UserProfile \<Rightarrow> SpeedData \<Rightarrow> error + AuthState" where
  "tryBody getMonth now stored st profile speedData =
     (let updated = updatedProfile getMonth now profile speedData
      in case updateDoc stored updated of
           Inl e \<Rightarrow> Inl e
         | Inr _ \<Rightarrow> Inr (st\<lparr>userProfile := Some updated\<rparr>))"

text \<open>
  The whole operation.  \<open>Inl\<close> would be an exception that reaches the caller; the
  \<open>catch\<close> clause logs the error and returns.
\<close>

definition updateUserRewards ::
  "(date \<Rightarrow> nat) \<Rightarrow> date \<Rightarrow> bool \<Rightarrow> AuthState \<Rightarrow> SpeedData \<Rightarrow> error + AuthState" where
  "updateUserRewards getMonth now stored st speedData =
     (case currentUser st of
        None \<Rightarrow> Inr st
      | Some _ \<Rightarrow>
         (case userProfile st of
            None \<Rightarrow> Inr st
          | Some profile \<Rightarrow>
             (case tryBody getMonth now stored st profile speedData of
                Inl e \<Rightarrow> Inr (st\<lparr>console := console st @ [e]\<rparr>)
              | Inr st' \<Rightarrow> Inr st')))"

text \<open>
  A series of calls, each with its own clock reading, store outcome and observation; the
  state that one call leaves is the state the next one reads.
\<close>

fun updateUserRewardsSeq ::
  "(date \<Rightarrow> nat) \<Rightarrow> AuthState \<Rightarrow> (date \<times> bool \<times> SpeedData) list \<Rightarrow> error + AuthState" where
  "updateUserRewardsSeq getMonth st [] = Inr st"
| "updateUserRewardsSeq getMonth st ((now, stored, speedData) # calls) =
     (case updateUserRewards getMonth now stored st speedData of
        Inl e \<Rightarrow> Inl e
      | Inr st' \<Rightarrow> updateUserRewardsSeq getMonth st' calls)"

section \<open>Geometry (calculateDistance, calculateSpeed)\<close>

text \<open>\<open>Math.atan2 y x\<close>, on exact reals (one zero, no infinities).\<close>

definition atan2 :: "number \<Rightarrow> number \<Rightarrow> number" where
  "atan2 y x =
     (if x > 0 then arctan (y / x)
      else if x < 0 then (if y \<ge> 0 then arctan (y / x) + pi else arctan (y / x) - pi)
      else if y > 0 then pi / 2
      else if y < 0 then - (pi / 2)
      else 0)"

text \<open>The haversine term \<open>a\<close>.\<close>

definition haversineA :: "number \<Rightarrow> number \<Rightarrow> number \<Rightarrow> number \<Rightarrow> number" where
  "haversineA lat1 lon1 lat2 lon2 =
     (let dLat = (lat2 - lat1) * pi / 180;
          dLon = (lon2 - lon1) * pi / 180
      in sin (dLat / 2) * sin (dLat / 2)
         + cos (lat1 * pi / 180) * cos (lat2 * pi / 180) * sin (dLon / 2) * sin (dLon / 2))"

text \<open>
  The distance in metres.  \<open>None\<close> stands for \<open>NaN\<close>, which \<open>Math.sqrt\<close> returns for
  a negative argument, that is when \<open>a\<close> is outside \<open>[0, 1]\<close>.
\<close>

definition calculateDistance :: "number \<Rightarrow> number \<Rightarrow> number \<Rightarrow> number \<Rightarrow> number option" where
  "calculateDistance lat1 lon1 lat2 lon2 =
     (let a = haversineA lat1 lon1 lat2 lon2
      in if a < 0 \<or> 1 < a then None
         else Some (6371000 * (2 * atan2 (sqrt a) (sqrt (1 - a)))))"

definition derivedSpeedMph :: "number \<Rightarrow> number \<Rightarrow> number" where
  "derivedSpeedMph distance timeDiff = distance / (timeDiff / 1000) * 2.237"

text \<open>
  \<open>calculateSpeed\<close> repeats the lines of \<open>calculateDistance\<close> and then filters.  With
  \<open>timeDiff = 0\<close> the quotient is \<open>Infinity\<close> (filtered to 0) for a non-zero distance and
  \<open>NaN\<close> for a zero one; \<open>NaN\<close> passes both comparisons and is returned.
\<close>

definition calculateSpeed ::
  "number \<Rightarrow> number \<Rightarrow> number \<Rightarrow> number \<Rightarrow> number \<Rightarrow> number option" where
  "calculateSpeed lat1 lon1 lat2 lon2 timeDiff =
     (case calculateDistance lat1 lon1 lat2 lon2 of
        None \<Rightarrow> None
      | Some distance \<Rightarrow>
          if timeDiff = 0 then (if distance = 0 then None else Some 0)
          else
            (let speedMph = derivedSpeedMph distance timeDiff
             in if speedMph > 150 \<or> (speedMph > 80 \<and> timeDiff < 5000) then Some 0
                else Some (max 0 (of_int (round speedMph)))))"

section \<open>Movement and speed inference (the watchPosition callback)\<close>

record Movement =
  time :: date
  lat :: number
  lon :: number

text \<open>The \<open>lastPosition\<close> state: \<open>{lat, lon, time, speed}\<close>.\<close>

record LastPosition =
  lastLat :: number
  lastLon :: number
  lastTime :: date
  lastSpeed :: number

text \<open>\<open>xs.slice(-n)\<close>: the last \<open>n\<close> elements, all of them when there are fewer.\<close>

definition sliceLast :: "nat \<Rightarrow> 'a list \<Rightarrow> 'a list" where
  "sliceLast n xs = drop (length xs - n) xs"

text \<open>The updater passed to \<open>setMovementHistory\<close> for each fix.\<close>

definition setMovementHistory :: "Movement list \<Rightarrow> Movement \<Rightarrow> Movement list" where
  "setMovementHistory prev newMovement = sliceLast 10 prev @ [newMovement]"

text \<open>
  \<open>smoothSpeed\<close>: the history that is stored, and the weighted average.  The
  \<open>forEach\<close> loop carries \<open>(weightedSum, totalWeight)\<close>.
\<close>

fun forEachWeight :: "number list \<Rightarrow> nat \<Rightarrow> number \<times> number \<Rightarrow> number \<times> number" where
  "forEachWeight [] index acc = acc"
| "forEachWeight (s # rest) index (weightedSum, totalWeight) =
     forEachWeight rest (index + 1)
       (weightedSum + s * (real index + 1), totalWeight + (real index + 1))"

definition smoothSpeed :: "number list \<Rightarrow> number \<Rightarrow> number list \<times> number" where
  "smoothSpeed speedHistory newSpeed =
     (let updatedHistory = sliceLast 5 (speedHistory @ [newSpeed])
      in case forEachWeight updatedHistory 0 (0, 0) of
           (weightedSum, totalWeight) \<Rightarrow>
             (updatedHistory, of_int (round (weightedSum / totalWeight))))"

text \<open>
  The candidate speed \<open>calculatedSpeed\<close> of one fix.  \<open>gpsSpeed\<close> is \<open>coords.speed\<close>
  (\<open>None\<close> for \<open>null\<close>); \<open>positionSpeed\<close> is the \<open>else if (lastPosition)\<close> branch.
\<close>

definition positionSpeed ::
  "LastPosition option \<Rightarrow> date \<Rightarrow> number \<Rightarrow> number \<Rightarrow> number option" where
  "positionSpeed lastPosition now latitude longitude =
     (case lastPosition of
        None \<Rightarrow> Some 0
      | Some lp \<Rightarrow>
          (let timeDiff = now - lastTime lp
           in if timeDiff > 2000
              then calculateSpeed (lastLat lp) (lastLon lp) latitude longitude (of_int timeDiff)
              else Some (lastSpeed lp)))"

definition calculatedSpeed ::
  "number option \<Rightarrow> LastPosition option \<Rightarrow> date \<Rightarrow> number \<Rightarrow> number \<Rightarrow> number option" where
  "calculatedSpeed gpsSpeed lastPosition now latitude longitude =
     (case gpsSpeed of
        None \<Rightarrow> positionSpeed lastPosition now latitude longitude
      | Some s \<Rightarrow>
          if s \<ge> 0 then Some (of_int (round (s * 2.237)))
          else positionSpeed lastPosition now latitude longitude)"

text \<open>
  \<open>detectMovement\<close>.  The \<open>for\<close> loop adds the distances of neighbouring entries; a
  \<open>NaN\<close> distance makes the sum \<open>NaN\<close>, and the final comparison false.
\<close>

fun totalDistance :: "Movement list \<Rightarrow> number option \<Rightarrow> number option" where
  "totalDistance (prevM # currM # rest) acc =
     totalDistance (currM # rest)
       (case (acc, calculateDistance (lat prevM) (lon prevM) (lat currM) (lon currM)) of
          (Some t, Some d) \<Rightarrow> Some (t + d)
        | _ \<Rightarrow> None)"
| "totalDistance _ acc = acc"

definition detectMovement :: "Movement list \<Rightarrow> date \<Rightarrow> number \<Rightarrow> bool" where
  "detectMovement movementHistory now accuracy =
     (if length movementHistory < 3 then False
      else
        (let recentMovements = filter (\<lambda>m. now - time m < 30000) movementHistory
         in if length recentMovements < 2 then False
            else
              (case totalDistance recentMovements (Some 0) of
                 None \<Rightarrow> False
               | Some distance \<Rightarrow> distance > max 5 (accuracy * 2))))"

definition isMoving :: "Movement list \<Rightarrow> date \<Rightarrow> number \<Rightarrow> number \<Rightarrow> bool" where
  "isMoving movementHistory now accuracy smoothedSpeed =
     (detectMovement movementHistory now accuracy \<or> smoothedSpeed > 2)"

definition isDriving :: "Movement list \<Rightarrow> date \<Rightarrow> number \<Rightarrow> number \<Rightarrow> bool" where
  "isDriving movementHistory now accuracy smoothedSpeed =
     (isMoving movementHistory now accuracy smoothedSpeed \<and> smoothedSpeed > 2)"

section \<open>Facts about the reward engine\<close>

text \<open>
  The operation never lets an exception out, and what it returns is decided by the
  presence of a user and a profile and by the outcome of the store.
\<close>

lemma updateUserRewards_result:
  "updateUserRewards getMonth now stored st speedData =
     Inr (case currentUser st of
            None \<Rightarrow> st
          | Some _ \<Rightarrow>
             (case userProfile st of
                None \<Rightarrow> st
              | Some profile \<Rightarrow>
                  if stored
                  then st\<lparr>userProfile := Some (updatedProfile getMonth now profile speedData)\<rparr>
                  else st\<lparr>console := console st @ [PersistenceFailure]\<rparr>))"
  by (simp add: updateUserRewards_def tryBody_def updateDoc_def Let_def split: option.splits)

lemma updatedProfile_fields:
  "totalRewards (updatedProfile getMonth now p sd) = max 0 (totalRewards p + rewardChange p sd)"
  "weeklyRewards (updatedProfile getMonth now p sd) = weeklyRewards p + max 0 (rewardChange p sd)"
  "monthlyRewards (updatedProfile getMonth now p sd) =
     fst (monthReset getMonth now p) + max 0 (rewardChange p sd)"
  "safetyScore (updatedProfile getMonth now p sd) =
     max 0 (min 100 (safetyScore p + safetyScoreChange sd))"
  "speedViolations (updatedProfile getMonth now p sd) =
     newSpeedViolations sd (snd (monthReset getMonth now p))"
  "averageSpeed (updatedProfile getMonth now p sd) = newAverageSpeed p sd"
  "totalDrivingTime (updatedProfile getMonth now p sd) = totalTime p sd"
  "lastSpeedCheck (updatedProfile getMonth now p sd) = Some now"
  "safetyStreak (updatedProfile getMonth now p sd) = safetyStreak p"
  by (simp_all add: updatedProfile_def split: prod.splits)

lemma score_step:
  assumes "userProfile st = Some p" "0 \<le> safetyScore p" "safetyScore p \<le> 100"
  shows "\<exists>st' p'. updateUserRewards getMonth now stored st sd = Inr st'
           \<and> userProfile st' = Some p' \<and> 0 \<le> safetyScore p' \<and> safetyScore p' \<le> 100"
  using assms by (cases "currentUser st") (simp_all add: updateUserRewards_result updatedProfile_fields)

text \<open>Three readings of the clock in the UTC zone: two in January 1970, one in February.\<close>

lemma getMonthUTC_epoch: "getMonthUTC 0 = 0"
  by code_simp

lemma getMonthUTC_february: "getMonthUTC 2678400000 = 1"
  by code_simp

lemma getMonthUTC_second: "getMonthUTC 1000 = 0"
  by code_simp

text \<open>
  Four more readings: 1 March 2024, one second later, 1 April 2024 and 1 March 2025.
\<close>

lemma getMonthUTC_march_2024: "getMonthUTC 1709251200000 = 2"
  by code_simp

lemma getMonthUTC_march_2024_later: "getMonthUTC 1709251201000 = 2"
  by code_simp

lemma getMonthUTC_april_2024: "getMonthUTC 1711929600000 = 3"
  by code_simp

lemma getMonthUTC_march_2025: "getMonthUTC 1740787200000 = 2"
  by code_simp

text \<open>
  The month reset by cases on the stored \<open>lastSpeedCheck\<close> (a missing one counts as the
  epoch), and the four fields of the update on which neither the clock nor the month
  function has any influence.
\<close>

lemma monthReset_cases:
  "(lastSpeedCheck p = Some d \<and> getMonth now \<noteq> getMonth d \<longrightarrow>
      monthReset getMonth now p = (0, 0))
   \<and> (lastSpeedCheck p = Some d \<and> getMonth now = getMonth d \<longrightarrow>
      monthReset getMonth now p = (monthlyRewards p, speedViolations p))
   \<and> (lastSpeedCheck p = None \<and> getMonth now \<noteq> getMonth 0 \<longrightarrow>
      monthReset getMonth now p = (0, 0))
   \<and> (lastSpeedCheck p = None \<and> getMonth now = getMonth 0 \<longrightarrow>
      monthReset getMonth now p = (monthlyRewards p, speedViolations p))"
  by (simp add: monthReset_def lastCheck_def)

lemma updatedProfile_frame:
  "totalRewards (updatedProfile getMonth now p sd)
       = totalRewards (updatedProfile getMonth' now' p sd)
   \<and> weeklyRewards (updatedProfile getMonth now p sd)
       = weeklyRewards (updatedProfile getMonth' now' p sd)
   \<and> averageSpeed (updatedProfile getMonth now p sd)
       = averageSpeed (updatedProfile getMonth' now' p sd)
   \<and> totalDrivingTime (updatedProfile getMonth now p sd)
       = totalDrivingTime (updatedProfile getMonth' now' p sd)"
  by (simp add: updatedProfile_fields)

section \<open>Facts about the geometry and the histories\<close>

lemma calculateDistance_same_point: "calculateDistance 0 0 0 0 = Some 0"
  by (simp add: calculateDistance_def haversineA_def atan2_def)

lemma calculateDistance_poles: "calculateDistance (- 90) 0 90 0 = Some (6371000 * pi)"
  by (simp add: calculateDistance_def haversineA_def atan2_def)

lemma poles_rejected: "derivedSpeedMph (6371000 * pi) 3000 > 150"
proof -
  have "derivedSpeedMph (6371000 * pi) 3000 = pi * (6371000 * 2237 / 3000)"
    by (simp add: derivedSpeedMph_def)
  moreover have "2 * (6371000 * 2237 / 3000) \<le> pi * (6371000 * 2237 / 3000)"
    using pi_ge_two by (intro mult_right_mono) simp_all
  ultimately show ?thesis by simp
qed

lemma poles_accepted: "derivedSpeedMph (6371000 * pi) 3600000000 \<le> 80"
proof -
  have "derivedSpeedMph (6371000 * pi) 3600000000 = pi * (6371000 * 2237 / 3600000000)"
    by (simp add: derivedSpeedMph_def)
  moreover have "pi * (6371000 * 2237 / 3600000000) \<le> 4 * (6371000 * 2237 / 3600000000)"
    using pi_less_4 by (intro mult_right_mono) simp_all
  ultimately show ?thesis by simp
qed

lemma length_sliceLast: "length (sliceLast n xs) = min n (length xs)"
  by (simp add: sliceLast_def)

lemma length_setMovementHistory:
  "length (setMovementHistory prev newMovement) = min 10 (length prev) + 1"
  by (simp add: setMovementHistory_def length_sliceLast)

lemma smoothSpeed_history: "fst (smoothSpeed speedHistory newSpeed) = sliceLast 5 (speedHistory @ [newSpeed])"
  by (simp add: smoothSpeed_def Let_def split: prod.splits)

lemma smoothSpeed_history_length: "length (fst (smoothSpeed speedHistory newSpeed)) \<le> 5"
  by (simp add: smoothSpeed_history length_sliceLast)

section \<open>Reward amounts and the documented rates\<close>

text \<open>
  C1.  One hour (\<open>duration = 60\<close> minutes) at 60 mph changes the reward by 8 and the score
  by 0.2 and leaves the violation count; one hour at 90 mph changes the reward by -15
  and the score by -0.8 and adds one violation.  The amounts are those of one whole
  hour, not the 480 and -900 that the per-minute rates of the comments give.
\<close>

theorem rewards_one_hour_at_60_and_90:
  "rewardChange (createDefaultProfile 0) \<lparr>speed = 60, duration = 60\<rparr> = 8
   \<and> safetyScoreChange \<lparr>speed = 60, duration = 60\<rparr> = 0.2
   \<and> newSpeedViolations \<lparr>speed = 60, duration = 60\<rparr> 0 = 0
   \<and> rewardChange (createDefaultProfile 0) \<lparr>speed = 90, duration = 60\<rparr> = - 15
   \<and> safetyScoreChange \<lparr>speed = 90, duration = 60\<rparr> = - 0.8
   \<and> newSpeedViolations \<lparr>speed = 90, duration = 60\<rparr> 0 = 1"
  by (simp add: rewardChange_def safetyScoreChange_def newSpeedViolations_def speedBand_def
      exerciseBand_def monthlyBonus_def totalTime_def newAverageSpeed_def createDefaultProfile_def)

text \<open>
  C2.  Half an hour (\<open>duration = 30\<close> minutes) at 10 mph is in the running/walking band:
  the score changes by 0.1, and the reward by \<open>\<lfloor>30 / 60\<rfloor> * 5 = 0\<close>, not by the 150 of
  "5 per minute".
\<close>

theorem rewards_half_hour_at_10:
  "rewardChange (createDefaultProfile 0) \<lparr>speed = 10, duration = 30\<rparr> = 0
   \<and> safetyScoreChange \<lparr>speed = 10, duration = 30\<rparr> = 0.1
   \<and> newSpeedViolations \<lparr>speed = 10, duration = 30\<rparr> 0 = 0"
  by (simp add: rewardChange_def safetyScoreChange_def newSpeedViolations_def speedBand_def
      exerciseBand_def monthlyBonus_def totalTime_def newAverageSpeed_def createDefaultProfile_def)

section \<open>Invariants of the reward state\<close>

text \<open>
  C3.  From a profile whose safety score lies in \<open>[0, 100]\<close>, any series of calls, with
  any speeds, durations, clock readings and store outcomes, returns normally and leaves a
  profile whose safety score lies in \<open>[0, 100]\<close>.
\<close>

theorem safetyScore_stays_in_range:
  assumes "userProfile st = Some p" and "0 \<le> safetyScore p" and "safetyScore p \<le> 100"
  shows "\<exists>st' p'. updateUserRewardsSeq getMonth st calls = Inr st'
           \<and> userProfile st' = Some p' \<and> 0 \<le> safetyScore p' \<and> safetyScore p' \<le> 100"
  using assms
proof (induction calls arbitrary: st p)
  case Nil
  then show ?case by simp
next
  case (Cons call calls)
  obtain now stored sd where call: "call = (now, stored, sd)"
    by (cases call) auto
  from score_step [OF Cons.prems, of getMonth now stored sd]
  obtain st1 p1 where step: "updateUserRewards getMonth now stored st sd = Inr st1"
    and p1: "userProfile st1 = Some p1" "0 \<le> safetyScore p1" "safetyScore p1 \<le> 100"
    by blast
  from Cons.IH [OF p1] show ?case
    by (simp add: call step)
qed

theorem safetyScore_stays_in_range_witness:
  "userProfile \<lparr>currentUser = Some ''u1'', userProfile = Some (createDefaultProfile 0), console = []\<rparr>
     = Some (createDefaultProfile 0)
   \<and> 0 \<le> safetyScore (createDefaultProfile 0)
   \<and> safetyScore (createDefaultProfile 0) \<le> 100
   \<and> (\<exists>st' p'.
         updateUserRewardsSeq getMonthUTC
           \<lparr>currentUser = Some ''u1'', userProfile = Some (createDefaultProfile 0), console = []\<rparr>
           [(1000, True, \<lparr>speed = 90, duration = 60\<rparr>),
            (31000, False, \<lparr>speed = 90, duration = 60\<rparr>),
            (2678400000, True, \<lparr>speed = 90, duration = 60\<rparr>)] = Inr st'
         \<and> userProfile st' = Some p' \<and> 0 \<le> safetyScore p' \<and> safetyScore p' \<le> 100)"
proof -
  have h1: "userProfile \<lparr>currentUser = Some ''u1'', userProfile = Some (createDefaultProfile 0),
      console = []\<rparr> = Some (createDefaultProfile 0)"
    by simp
  have h2: "0 \<le> safetyScore (createDefaultProfile 0)"
    by (simp add: createDefaultProfile_def)
  have h3: "safetyScore (createDefaultProfile 0) \<le> 100"
    by (simp add: createDefaultProfile_def)
  show ?thesis
    using h1 h2 h3 safetyScore_stays_in_range [OF h1 h2 h3, of getMonthUTC] by blast
qed

text \<open>
  C4.  For a signed-in user with a profile, a call whose update is stored puts the updated
  profile in memory, and a call whose update is rejected leaves the profile and only logs.
  The update sets \<open>totalRewards\<close> to \<open>max 0 (totalRewards + rewardChange)\<close>, which is not
  negative, and adds \<open>max 0 rewardChange\<close> to \<open>weeklyRewards\<close> and to the running value of
  \<open>monthlyRewards\<close> (the stored value, or 0 when the month of \<open>now\<close> is not the month of
  the last check), so neither counter falls below its running value.
\<close>

theorem rewards_applied:
  assumes "currentUser st = Some uid" and "userProfile st = Some p"
  shows "updateUserRewards getMonth now True st sd
           = Inr (st\<lparr>userProfile := Some (updatedProfile getMonth now p sd)\<rparr>)
         \<and> updateUserRewards getMonth now False st sd
           = Inr (st\<lparr>console := console st @ [PersistenceFailure]\<rparr>)
         \<and> totalRewards (updatedProfile getMonth now p sd)
           = max 0 (totalRewards p + rewardChange p sd)
         \<and> 0 \<le> totalRewards (updatedProfile getMonth now p sd)
         \<and> weeklyRewards (updatedProfile getMonth now p sd)
           = weeklyRewards p + max 0 (rewardChange p sd)
         \<and> weeklyRewards p \<le> weeklyRewards (updatedProfile getMonth now p sd)
         \<and> monthlyRewards (updatedProfile getMonth now p sd)
           = (if getMonth now \<noteq> getMonth (lastCheck p) then 0 else monthlyRewards p)
             + max 0 (rewardChange p sd)
         \<and> (if getMonth now \<noteq> getMonth (lastCheck p) then 0 else monthlyRewards p)
           \<le> monthlyRewards (updatedProfile getMonth now p sd)"
  using assms
  by (simp add: updateUserRewards_result updatedProfile_fields monthReset_def)

theorem rewards_applied_witness:
  "updateUserRewards getMonthUTC 1709251201000 True
      \<lparr>currentUser = Some ''u1'',
       userProfile = Some ((createDefaultProfile 1709251200000)
                             \<lparr>totalRewards := 10, weeklyRewards := 24, monthlyRewards := 40\<rparr>),
       console = []\<rparr>
      \<lparr>speed = 90, duration = 120\<rparr>
     = Inr \<lparr>currentUser = Some ''u1'',
            userProfile = Some
              \<lparr>safetyScore = 99.2, totalRewards = 0, weeklyRewards = 24, monthlyRewards = 40,
               safetyStreak = 0, speedViolations = 1, lastSpeedCheck = Some 1709251201000,
               averageSpeed = 90, totalDrivingTime = 120\<rparr>,
            console = []\<rparr>
   \<and> updateUserRewards getMonthUTC 1709251201000 False
      \<lparr>currentUser = Some ''u1'',
       userProfile = Some ((createDefaultProfile 1709251200000)
                             \<lparr>totalRewards := 10, weeklyRewards := 24, monthlyRewards := 40\<rparr>),
       console = []\<rparr>
      \<lparr>speed = 90, duration = 120\<rparr>
     = Inr \<lparr>currentUser = Some ''u1'',
            userProfile = Some ((createDefaultProfile 1709251200000)
                             \<lparr>totalRewards := 10, weeklyRewards := 24, monthlyRewards := 40\<rparr>),
            console = [PersistenceFailure]\<rparr>
   \<and> monthlyRewards (updatedProfile getMonthUTC 1711929600000
        ((createDefaultProfile 1709251200000)
           \<lparr>totalRewards := 10, weeklyRewards := 24, monthlyRewards := 40\<rparr>)
        \<lparr>speed = 60, duration = 60\<rparr>) = 8"
proof -
  let ?p = "(createDefaultProfile 1709251200000)
              \<lparr>totalRewards := 10, weeklyRewards := 24, monthlyRewards := 40\<rparr>"
  let ?st = "\<lparr>currentUser = Some ''u1'', userProfile = Some ?p, console = []\<rparr>"
  have h1: "currentUser ?st = Some ''u1''" and h2: "userProfile ?st = Some ?p"
    by simp_all
  have lc: "lastCheck ?p = 1709251200000"
    by (simp add: lastCheck_def createDefaultProfile_def)
  have rc60: "rewardChange ?p \<lparr>speed = 60, duration = 60\<rparr> = 8"
    by (simp add: rewardChange_def speedBand_def exerciseBand_def monthlyBonus_def totalTime_def
        newAverageSpeed_def createDefaultProfile_def)
  have up: "updatedProfile getMonthUTC 1709251201000 ?p \<lparr>speed = 90, duration = 120\<rparr>
      = \<lparr>safetyScore = 99.2, totalRewards = 0, weeklyRewards = 24, monthlyRewards = 40,
         safetyStreak = 0, speedViolations = 1, lastSpeedCheck = Some 1709251201000,
         averageSpeed = 90, totalDrivingTime = 120\<rparr>"
    by (simp add: updatedProfile_def monthReset_def lastCheck_def
      getMonthUTC_march_2024 getMonthUTC_march_2024_later rewardChange_def safetyScoreChange_def
      newSpeedViolations_def speedBand_def exerciseBand_def monthlyBonus_def totalTime_def
      newAverageSpeed_def createDefaultProfile_def)
  from rewards_applied [OF h1 h2, of getMonthUTC 1709251201000 "\<lparr>speed = 90, duration = 120\<rparr>"]
  have a: "updateUserRewards getMonthUTC 1709251201000 True ?st \<lparr>speed = 90, duration = 120\<rparr>
             = Inr (?st\<lparr>userProfile := Some
                  (updatedProfile getMonthUTC 1709251201000 ?p \<lparr>speed = 90, duration = 120\<rparr>)\<rparr>)"
    and b: "updateUserRewards getMonthUTC 1709251201000 False ?st \<lparr>speed = 90, duration = 120\<rparr>
             = Inr (?st\<lparr>console := console ?st @ [PersistenceFailure]\<rparr>)"
    by blast+
  from rewards_applied [OF h1 h2, of getMonthUTC 1711929600000 "\<lparr>speed = 60, duration = 60\<rparr>"]
  have c: "monthlyRewards (updatedProfile getMonthUTC 1711929600000 ?p \<lparr>speed = 60, duration = 60\<rparr>)
             = (if getMonthUTC 1711929600000 \<noteq> getMonthUTC (lastCheck ?p) then 0
                else monthlyRewards ?p) + max 0 (rewardChange ?p \<lparr>speed = 60, duration = 60\<rparr>)"
    by blast
  have c': "monthlyRewards (updatedProfile getMonthUTC 1711929600000 ?p \<lparr>speed = 60, duration = 60\<rparr>) = 8"
    using c by (simp add: lc rc60 getMonthUTC_april_2024 getMonthUTC_march_2024)
  show ?thesis
    using a b c' by (simp add: up)
qed

section \<open>The month reset\<close>

text \<open>
  C6.  A profile last checked on 1 March 2024, with \<open>monthlyRewards = 40\<close> and
  \<open>speedViolations = 3\<close>, receives one hour at 60 mph on 1 March 2025, 365 days later.
  The two dates are in different calendar months, but \<open>getMonth\<close> gives 2 for both, so
  nothing is reset: \<open>monthlyRewards\<close> becomes 48 and \<open>speedViolations\<close> stays 3.
\<close>

theorem no_reset_a_year_later:
  "1740787200000 - 1709251200000 = (365 * 86400000 :: int)
   \<and> monthReset getMonthUTC 1740787200000
       ((createDefaultProfile 1709251200000)\<lparr>monthlyRewards := 40, speedViolations := 3\<rparr>)
      = (40, 3)
   \<and> updateUserRewards getMonthUTC 1740787200000 True
       \<lparr>currentUser = Some ''u1'',
        userProfile = Some ((createDefaultProfile 1709251200000)
                              \<lparr>monthlyRewards := 40, speedViolations := 3\<rparr>),
        console = []\<rparr>
       \<lparr>speed = 60, duration = 60\<rparr>
      = Inr \<lparr>currentUser = Some ''u1'',
             userProfile = Some
               \<lparr>safetyScore = 100, totalRewards = 8, weeklyRewards = 8, monthlyRewards = 48,
                safetyStreak = 0, speedViolations = 3, lastSpeedCheck = Some 1740787200000,
                averageSpeed = 60, totalDrivingTime = 60\<rparr>,
             console = []\<rparr>"
  by (simp add: updateUserRewards_result updatedProfile_def monthReset_def lastCheck_def
      getMonthUTC_march_2024 getMonthUTC_march_2025 rewardChange_def safetyScoreChange_def
      newSpeedViolations_def speedBand_def exerciseBand_def monthlyBonus_def totalTime_def
      newAverageSpeed_def createDefaultProfile_def)

section \<open>Speed and movement inference\<close>

text \<open>
  C5.  Eleven fixes after an empty history leave eleven entries in the movement history:
  the updater keeps the last ten of the previous entries and then appends the new one.
\<close>

theorem movementHistory_holds_eleven:
  "length (foldl setMovementHistory []
     (map (\<lambda>t. \<lparr>time = t, lat = 0, lon = 0\<rparr>)
        [0, 1000, 2000, 3000, 4000, 5000, 6000, 7000, 8000, 9000, 10000])) = 11"
  by (simp add: setMovementHistory_def sliceLast_def)

text \<open>
  C7, as stated: with no reported speed and a prior fix exactly 2000 ms old, the claim
  asks for the derived speed (0 for an unmoved device), but the previous smoothed speed
  (30) is reused.
\<close>

theorem candidate_at_2000ms_counterexample:
  "calculatedSpeed None (Some \<lparr>lastLat = 0, lastLon = 0, lastTime = 0, lastSpeed = 30\<rparr>) 2000 0 0
     = Some 30
   \<and> calculateSpeed 0 0 0 0 2000 = Some 0"
  by (simp add: calculatedSpeed_def positionSpeed_def calculateSpeed_def
      calculateDistance_same_point derivedSpeedMph_def)

text \<open>
  C7, amended.  A reported speed \<open>s \<ge> 0\<close> gives \<open>round (s * 2.237)\<close>; a negative one counts
  as absent.  Without a reported speed and without a prior fix the candidate is 0.  With a
  prior fix more than 2000 ms old the candidate is \<open>calculateSpeed\<close> of the two fixes, and
  with a prior fix at most 2000 ms old it is the previous smoothed speed.
  \<open>calculateSpeed\<close> is 0 when the derived speed exceeds 150 mph, or exceeds 80 mph with
  less than 5000 ms elapsed, and otherwise the derived speed rounded and not below 0.
\<close>

theorem candidate_speed_selection:
  "(0 \<le> s \<longrightarrow>
      calculatedSpeed (Some s) lastPosition now latitude longitude
        = Some (of_int (round (s * 2.237))))
   \<and> (s < 0 \<longrightarrow>
      calculatedSpeed (Some s) lastPosition now latitude longitude
        = calculatedSpeed None lastPosition now latitude longitude)
   \<and> calculatedSpeed None None now latitude longitude = Some 0
   \<and> (now - lastTime lp > 2000 \<longrightarrow>
      calculatedSpeed None (Some lp) now latitude longitude
        = calculateSpeed (lastLat lp) (lastLon lp) latitude longitude (of_int (now - lastTime lp)))
   \<and> (now - lastTime lp \<le> 2000 \<longrightarrow>
      calculatedSpeed None (Some lp) now latitude longitude = Some (lastSpeed lp))
   \<and> (calculateDistance lat1 lon1 lat2 lon2 = Some distance \<and> timeDiff \<noteq> 0
        \<and> (derivedSpeedMph distance timeDiff > 150
             \<or> (derivedSpeedMph distance timeDiff > 80 \<and> timeDiff < 5000)) \<longrightarrow>
      calculateSpeed lat1 lon1 lat2 lon2 timeDiff = Some 0)
   \<and> (calculateDistance lat1 lon1 lat2 lon2 = Some distance \<and> timeDiff \<noteq> 0
        \<and> derivedSpeedMph distance timeDiff \<le> 150
        \<and> (derivedSpeedMph distance timeDiff \<le> 80 \<or> 5000 \<le> timeDiff) \<longrightarrow>
      calculateSpeed lat1 lon1 lat2 lon2 timeDiff
        = Some (max 0 (of_int (round (derivedSpeedMph distance timeDiff)))))"
proof (intro conjI impI)
  assume "calculateDistance lat1 lon1 lat2 lon2 = Some distance \<and> timeDiff \<noteq> 0
        \<and> derivedSpeedMph distance timeDiff \<le> 150
        \<and> (derivedSpeedMph distance timeDiff \<le> 80 \<or> 5000 \<le> timeDiff)"
  then show "calculateSpeed lat1 lon1 lat2 lon2 timeDiff
        = Some (max 0 (of_int (round (derivedSpeedMph distance timeDiff))))"
    by (auto simp add: calculateSpeed_def Let_def)
qed (auto simp add: calculatedSpeed_def positionSpeed_def calculateSpeed_def Let_def)

theorem candidate_speed_selection_witness:
  "calculatedSpeed (Some 10) None 5000 0 0 = Some 22
   \<and> calculatedSpeed (Some (- 1)) None 5000 0 0 = calculatedSpeed None None 5000 0 0
   \<and> calculatedSpeed None (Some \<lparr>lastLat = 0, lastLon = 0, lastTime = 0, lastSpeed = 30\<rparr>) 2001 0 0
       = calculateSpeed 0 0 0 0 2001
   \<and> calculatedSpeed None (Some \<lparr>lastLat = 0, lastLon = 0, lastTime = 0, lastSpeed = 30\<rparr>) 2000 0 0
       = Some 30
   \<and> calculateSpeed (- 90) 0 90 0 3000 = Some 0
   \<and> calculateSpeed (- 90) 0 90 0 3600000000
       = Some (max 0 (of_int (round (derivedSpeedMph (6371000 * pi) 3600000000))))"
proof -
  have r: "round (10 * 2.237 :: real) = 22"
    by (simp add: round_def)
  have "calculatedSpeed (Some 10) None 5000 0 0 = Some 22"
    using candidate_speed_selection [of 10 None 5000 0 0] r by simp
  moreover have "calculatedSpeed (Some (- 1)) None 5000 0 0 = calculatedSpeed None None 5000 0 0"
    using candidate_speed_selection [of "- 1" None 5000 0 0] by simp
  moreover have "calculatedSpeed None
      (Some \<lparr>lastLat = 0, lastLon = 0, lastTime = 0, lastSpeed = 30\<rparr>) 2001 0 0
       = calculateSpeed 0 0 0 0 2001"
    using candidate_speed_selection
      [of 0 None 2001 0 0 "\<lparr>lastLat = 0, lastLon = 0, lastTime = 0, lastSpeed = 30\<rparr>"]
    by simp
  moreover have "calculatedSpeed None
      (Some \<lparr>lastLat = 0, lastLon = 0, lastTime = 0, lastSpeed = 30\<rparr>) 2000 0 0 = Some 30"
    using candidate_speed_selection
      [of 0 None 2000 0 0 "\<lparr>lastLat = 0, lastLon = 0, lastTime = 0, lastSpeed = 30\<rparr>"]
    by simp
  moreover have "calculateSpeed (- 90) 0 90 0 3000 = Some 0"
    using candidate_speed_selection
      [of 0 None 0 0 0 "\<lparr>lastLat = 0, lastLon = 0, lastTime = 0, lastSpeed = 0\<rparr>"
          "- 90" 0 90 0 "6371000 * pi" 3000]
      calculateDistance_poles poles_rejected
    by simp
  moreover have "calculateSpeed (- 90) 0 90 0 3600000000
       = Some (max 0 (of_int (round (derivedSpeedMph (6371000 * pi) 3600000000))))"
    using candidate_speed_selection
      [of 0 None 0 0 0 "\<lparr>lastLat = 0, lastLon = 0, lastTime = 0, lastSpeed = 0\<rparr>"
          "- 90" 0 90 0 "6371000 * pi" 3600000000]
      calculateDistance_poles poles_accepted
    by simp
  ultimately show ?thesis by blast
qed

text \<open>
  C8.  The driving flag \<open>(detectMovement \<or> smoothedSpeed > 2) \<and> smoothedSpeed > 2\<close> equals
  \<open>smoothedSpeed > 2\<close> for every movement history, clock reading and accuracy.
\<close>

theorem isDriving_is_speed_test:
  "isDriving movementHistory now accuracy smoothedSpeed = (smoothedSpeed > 2)"
  by (auto simp add: isDriving_def isMoving_def)

section \<open>Failure of the store and the violation counter\<close>

text \<open>
  C9.  When the store rejects the update, the call returns normally, the in-memory
  profile is the one before the call, and the only change is the logged error.
\<close>

theorem persistence_failure_discards:
  assumes "currentUser st = Some uid" and "userProfile st = Some p"
  shows "updateUserRewards getMonth now False st sd
           = Inr (st\<lparr>console := console st @ [PersistenceFailure]\<rparr>)
         \<and> userProfile (st\<lparr>console := console st @ [PersistenceFailure]\<rparr>) = Some p"
  using assms by (simp add: updateUserRewards_result)

theorem persistence_failure_discards_witness:
  "updateUserRewards getMonthUTC 2678400000 False
      \<lparr>currentUser = Some ''u1'', userProfile = Some (createDefaultProfile 0), console = []\<rparr>
      \<lparr>speed = 90, duration = 60\<rparr>
     = Inr \<lparr>currentUser = Some ''u1'', userProfile = Some (createDefaultProfile 0),
            console = [PersistenceFailure]\<rparr>"
  using persistence_failure_discards
    [of "\<lparr>currentUser = Some ''u1'', userProfile = Some (createDefaultProfile 0), console = []\<rparr>"
        "''u1''" "createDefaultProfile 0" getMonthUTC 2678400000 "\<lparr>speed = 90, duration = 60\<rparr>"]
  by simp

text \<open>
  C10.  An observation with \<open>3 \<le> speed \<le> 15\<close> in the month of the last check leaves
  \<open>speedViolations\<close> as it was, whether or not the update is stored.
\<close>

theorem exercise_band_keeps_violations:
  assumes "userProfile st = Some p"
    and "3 \<le> speed sd" and "speed sd \<le> 15"
    and "getMonth now = getMonth (lastCheck p)"
  shows "\<exists>st' p'. updateUserRewards getMonth now stored st sd = Inr st'
           \<and> userProfile st' = Some p' \<and> speedViolations p' = speedViolations p"
  using assms
  by (cases "currentUser st")
     (simp_all add: updateUserRewards_result updatedProfile_fields monthReset_def
        newSpeedViolations_def speedBand_def)

theorem exercise_band_keeps_violations_witness:
  "\<exists>st' p'. updateUserRewards getMonthUTC 1000 True
       \<lparr>currentUser = Some ''u1'',
        userProfile = Some ((createDefaultProfile 0)\<lparr>speedViolations := 3\<rparr>), console = []\<rparr>
       \<lparr>speed = 10, duration = 30\<rparr> = Inr st'
     \<and> userProfile st' = Some p' \<and> speedViolations p' = 3"
  using exercise_band_keeps_violations
    [of "\<lparr>currentUser = Some ''u1'',
          userProfile = Some ((createDefaultProfile 0)\<lparr>speedViolations := 3\<rparr>), console = []\<rparr>"
        "(createDefaultProfile 0)\<lparr>speedViolations := 3\<rparr>"
        "\<lparr>speed = 10, duration = 30\<rparr>" getMonthUTC 1000 True]
  by (simp add: lastCheck_def createDefaultProfile_def getMonthUTC_epoch getMonthUTC_second)

end
